theory Spec2Isabelle
  imports Complex_Main
begin

section \<open>Floating-point numbers\<close>

text \<open>
  A Python \<^verbatim>\<open>float\<close> is an IEEE 754 binary64 value: a finite number, an infinity or
  NaN. \<open>Fin r\<close> stands for the double whose exact value is the real \<open>r\<close>; the two
  zeros are not told apart (they compare equal, are both falsy, and
  \<^verbatim>\<open>math.hypot\<close> never returns the negative one). Comparisons are exact in IEEE
  arithmetic and are defined here; every comparison with NaN is false.
\<close>

datatype double = Fin real | PInf | NInf | NaN

fun neg :: "double \<Rightarrow> double" where
  "neg (Fin r) = Fin (- r)"
| "neg PInf = NInf"
| "neg NInf = PInf"
| "neg NaN = NaN"

fun double_lt :: "double \<Rightarrow> double \<Rightarrow> bool" where
  "double_lt (Fin a) (Fin b) = (a < b)"
| "double_lt (Fin a) PInf = True"
| "double_lt NInf (Fin b) = True"
| "double_lt NInf PInf = True"
| "double_lt x y = False"

definition double_gt :: "double \<Rightarrow> double \<Rightarrow> bool" where
  "double_gt x y = double_lt y x"

text \<open>Python's \<^verbatim>\<open>==\<close> on floats: NaN is equal to nothing, itself included.\<close>

definition double_eq :: "double \<Rightarrow> double \<Rightarrow> bool" where
  "double_eq x y = (x \<noteq> NaN \<and> x = y)"

text \<open>
  The arithmetic that rounds is the platform's, not this program's: \<^verbatim>\<open>+\<close> and
  \<^verbatim>\<open>-\<close> on floats, \<^verbatim>\<open>math.hypot\<close>, and the conversions \<^verbatim>\<open>float(int)\<close> (which
  raises \<^verbatim>\<open>OverflowError\<close>, here \<open>None\<close>, on an int too large) and
  \<^verbatim>\<open>float(str)\<close> (which raises \<^verbatim>\<open>ValueError\<close>, here \<open>None\<close>, on a string it cannot
  parse). The program is modelled over any such arithmetic, given as a record.
\<close>

record arith =
  fadd :: "double \<Rightarrow> double \<Rightarrow> double"
  fsub :: "double \<Rightarrow> double \<Rightarrow> double"
  fhypot :: "double \<Rightarrow> double \<Rightarrow> double"
  float_of_int :: "int \<Rightarrow> double option"
  float_of_str :: "string \<Rightarrow> double option"

text \<open>
  The doubles that the literals \<^verbatim>\<open>0.04\<close> and \<^verbatim>\<open>0.06\<close> of the source denote
  (the nearest doubles to 4/100 and 6/100).
\<close>

definition lit_0_04 :: double where
  "lit_0_04 = Fin (5764607523034235 / 2 ^ 57)"

definition lit_0_06 :: double where
  "lit_0_06 = Fin (1080863910568919 / 2 ^ 54)"

section \<open>Python values\<close>

text \<open>
  \<^verbatim>\<open>classify_sign\<close> of \<^verbatim>\<open>app.py\<close> is dynamically typed: it is handed whatever the
  JSON decoder produced (or, when called directly, any Python object). The values
  it can tell apart are modelled by one datatype. A \<^verbatim>\<open>dict\<close> with string keys is an
  association list read with \<open>map_of\<close>.
\<close>

datatype pyval =
    PNone
  | PBool bool
  | PInt int
  | PFloat double
  | PStr string
  | PList "pyval list"
  | PTuple "pyval list"
  | PDict "(string \<times> pyval) list"

text \<open>The exceptions the code can raise; a raise is the \<open>Inl\<close> branch of a sum.\<close>

datatype pyerr = AttributeError | TypeError | ValueError | OverflowError

definition bind_err :: "pyerr + 'a \<Rightarrow> ('a \<Rightarrow> pyerr + 'b) \<Rightarrow> pyerr + 'b" where
  "bind_err m f = (case m of Inl e \<Rightarrow> Inl e | Inr x \<Rightarrow> f x)"

text \<open>
  Python truthiness: what \<^verbatim>\<open>not v\<close> and \<^verbatim>\<open>if v:\<close> test. A float is falsy when it
  is zero; NaN and the infinities are truthy.
\<close>

fun truthy :: "pyval \<Rightarrow> bool" where
  "truthy PNone = False"
| "truthy (PBool b) = b"
| "truthy (PInt i) = (i \<noteq> 0)"
| "truthy (PFloat d) = (d \<noteq> Fin 0)"
| "truthy (PStr s) = (s \<noteq> [])"
| "truthy (PList vs) = (vs \<noteq> [])"
| "truthy (PTuple vs) = (vs \<noteq> [])"
| "truthy (PDict kvs) = (kvs \<noteq> [])"

text \<open>
  Whether a value can be a dictionary key: lists and dicts are unhashable, a tuple is
  hashable when its components are.
\<close>

fun hashable :: "pyval \<Rightarrow> bool" where
  "hashable (PList vs) = False"
| "hashable (PDict kvs) = False"
| "hashable (PTuple vs) = list_all hashable vs"
| "hashable v = True"

text \<open>
  \<^verbatim>\<open>v.get(k, d)\<close>: only a dict has the method; on anything else the attribute lookup
  raises \<^verbatim>\<open>AttributeError\<close>.
\<close>

fun py_get :: "pyval \<Rightarrow> string \<Rightarrow> pyval \<Rightarrow> pyerr + pyval" where
  "py_get (PDict kvs) k d = Inr (case map_of kvs k of Some v \<Rightarrow> v | None \<Rightarrow> d)"
| "py_get v k d = Inl AttributeError"

text \<open>
  \<^verbatim>\<open>float(v)\<close>: a float is returned as it is, a bool is 1.0 or 0.0, an int and a
  string are converted by the platform, and \<^verbatim>\<open>None\<close>, lists, tuples and dicts raise
  \<^verbatim>\<open>TypeError\<close>.
\<close>

fun py_float :: "arith \<Rightarrow> pyval \<Rightarrow> pyerr + double" where
  "py_float ar (PFloat d) = Inr d"
| "py_float ar (PInt i) =
     (case float_of_int ar i of Some d \<Rightarrow> Inr d | None \<Rightarrow> Inl OverflowError)"
| "py_float ar (PBool b) = Inr (Fin (if b then 1 else 0))"
| "py_float ar (PStr s) =
     (case float_of_str ar s of Some d \<Rightarrow> Inr d | None \<Rightarrow> Inl ValueError)"
| "py_float ar v = Inl TypeError"

section \<open>Helpers\<close>

text \<open>
  \<^verbatim>\<open>dist(a, b)\<close>: 0.0 when either argument is falsy, else \<^verbatim>\<open>math.hypot\<close> of the
  differences of the coerced \<^verbatim>\<open>x\<close>, \<^verbatim>\<open>y\<close> fields (default 0.0), read in the
  source's order.
\<close>

definition dist_lm :: "arith \<Rightarrow> pyval \<Rightarrow> pyval \<Rightarrow> pyerr + double" where
  "dist_lm ar a b =
     (if \<not> truthy a \<or> \<not> truthy b then Inr (Fin 0)
      else
        bind_err (py_get a ''x'' (PFloat (Fin 0))) (\<lambda>vax.
        bind_err (py_float ar vax) (\<lambda>ax.
        bind_err (py_get a ''y'' (PFloat (Fin 0))) (\<lambda>vay.
        bind_err (py_float ar vay) (\<lambda>ay.
        bind_err (py_get b ''x'' (PFloat (Fin 0))) (\<lambda>vbx.
        bind_err (py_float ar vbx) (\<lambda>bx.
        bind_err (py_get b ''y'' (PFloat (Fin 0))) (\<lambda>vby.
        bind_err (py_float ar vby) (\<lambda>by'.
        Inr (fhypot ar (fsub ar ax bx) (fsub ar ay by')))))))))))"

section \<open>The classifier\<close>

text \<open>
  The loop that fills \<^verbatim>\<open>by_name\<close>: for each landmark in order, read its name and,
  when the name is truthy, store the landmark under it (a later landmark of the same
  name overwrites an earlier one). A landmark that is no dict raises
  \<^verbatim>\<open>AttributeError\<close>, an unhashable truthy name raises \<^verbatim>\<open>TypeError\<close>. The
  dictionary is keyed by the name value itself; the program only ever looks up
  string keys.
\<close>

fun by_name_loop :: "pyval list \<Rightarrow> (pyval \<rightharpoonup> pyval) \<Rightarrow> pyerr + (pyval \<rightharpoonup> pyval)" where
  "by_name_loop [] by_name = Inr by_name"
| "by_name_loop (lm # lms) by_name =
     bind_err (py_get lm ''name'' PNone) (\<lambda>name.
       if truthy name then
         (if hashable name then by_name_loop lms (by_name(name \<mapsto> lm))
          else Inl TypeError)
       else by_name_loop lms by_name)"

text \<open>
  \<^verbatim>\<open>g(name, idx)\<close>: the landmark stored under the name, else the element at the
  index when it is in range, else \<^verbatim>\<open>None\<close>.
\<close>

definition g :: "(pyval \<rightharpoonup> pyval) \<Rightarrow> pyval list \<Rightarrow> string \<Rightarrow> nat \<Rightarrow> pyval" where
  "g by_name landmarks name idx =
     (case by_name (PStr name) of
        Some lm \<Rightarrow> lm
      | None \<Rightarrow> (if idx < length landmarks then landmarks ! idx else PNone))"

text \<open>
  \<^verbatim>\<open>extended(tip, pip)\<close>, a closure over \<^verbatim>\<open>wrist\<close>: the float sum
  \<^verbatim>\<open>dist(pip, wrist) + 0.04\<close> is compared with \<^verbatim>\<open>dist(tip, wrist)\<close>.
\<close>

definition extended :: "arith \<Rightarrow> pyval \<Rightarrow> pyval \<Rightarrow> pyval \<Rightarrow> pyerr + bool" where
  "extended ar wrist tip pip =
     (if \<not> truthy tip \<or> \<not> truthy pip then Inr False
      else
        bind_err (dist_lm ar tip wrist) (\<lambda>dt.
        bind_err (dist_lm ar pip wrist) (\<lambda>dp.
        Inr (double_gt dt (fadd ar dp lit_0_04)))))"

text \<open>
  A result is the triple (label, confidence, debug). The confidence is a literal of
  the source and is written as that decimal; debug is a dict in insertion order.
\<close>

type_synonym debug = "(string \<times> pyval) list"
type_synonym result = "string \<times> real \<times> debug"

definition fingers_dict :: "bool \<Rightarrow> bool \<Rightarrow> bool \<Rightarrow> bool \<Rightarrow> bool \<Rightarrow> debug" where
  "fingers_dict thumb index middle ring pinky =
     [(''thumb'', PBool thumb), (''index'', PBool index), (''middle'', PBool middle),
      (''ring'', PBool ring), (''pinky'', PBool pinky)]"

definition count_fingers :: "bool \<Rightarrow> bool \<Rightarrow> bool \<Rightarrow> bool \<Rightarrow> bool \<Rightarrow> nat" where
  "count_fingers thumb index middle ring pinky =
     sum_list (map of_bool [thumb, index, middle, ring, pinky])"

text \<open>The rule table, in the source's order; the first rule that matches returns.\<close>

definition sign_rules ::
  "bool \<Rightarrow> bool \<Rightarrow> bool \<Rightarrow> bool \<Rightarrow> bool \<Rightarrow> pyval \<Rightarrow> pyval \<Rightarrow> double \<Rightarrow> result" where
  "sign_rules thumb index middle ring pinky thumb_tip index_tip pinch_d =
     (let fingers = fingers_dict thumb index middle ring pinky;
          count = count_fingers thumb index middle ring pinky
      in
      if pinky \<and> \<not> thumb \<and> \<not> index \<and> \<not> middle \<and> \<not> ring then
        (''Pinky'', 0.88, fingers @ [(''reason'', PStr ''TOILET'')])
      else if middle \<and> \<not> thumb \<and> \<not> index \<and> \<not> ring \<and> \<not> pinky then
        (''Middle'', 0.88, fingers @ [(''reason'', PStr ''ANGRY'')])
      else if ring \<and> middle \<and> pinky \<and> \<not> thumb \<and> \<not> index then
        (''Ring Pinky Middle'', 0.90, fingers @ [(''reason'', PStr ''AWESOME'')])
      else if truthy thumb_tip \<and> truthy index_tip \<and> double_lt pinch_d lit_0_06 then
        (''Pinch'', 0.86, fingers @ [(''pinch_distance'', PFloat pinch_d)])
      else if index \<and> \<not> middle \<and> \<not> ring \<and> \<not> pinky then
        (''Point'', 0.87, fingers @ [(''reason'', PStr ''POINT'')])
      else if index \<and> middle \<and> \<not> ring \<and> \<not> pinky then
        (''Peace'', 0.88, fingers @ [(''reason'', PStr ''PEACE'')])
      else if index \<and> pinky \<and> \<not> middle \<and> \<not> ring then
        (''Rock'', 0.88, fingers @ [(''reason'', PStr ''ROCK'')])
      else if thumb \<and> count = 1 then
        (''Thumbs Up'', 0.90, fingers @ [(''reason'', PStr ''THUMBS_UP'')])
      else if count = 0 then
        (''Fist'', 0.85, fingers @ [(''reason'', PStr ''FIST'')])
      else if count = 5 then
        (''Open Hand'', 0.92, fingers @ [(''reason'', PStr ''OPEN_HAND'')])
      else if count = 4 then
        (''Four Fingers'', 0.82, fingers @ [(''reason'', PStr ''FOUR'')])
      else if count = 3 then
        (''Three Fingers'', 0.80, fingers @ [(''reason'', PStr ''THREE'')])
      else
        (''Unknown'', 0.30, fingers @ [(''reason'', PStr ''UNKNOWN'')]))"

definition not_enough_landmarks :: result where
  "not_enough_landmarks = (''Unknown'', 0.2, [(''error'', PStr ''NOT_ENOUGH_LANDMARKS'')])"

definition no_wrist :: result where
  "no_wrist = (''Unknown'', 0.1, [(''error'', PStr ''NO_WRIST'')])"

text \<open>
  The part of \<^verbatim>\<open>classify_sign\<close> after \<^verbatim>\<open>by_name\<close> is built: resolve the eleven
  roles, leave when the wrist is falsy, derive the five finger flags and the pinch
  distance, and run the rule table.
\<close>

definition classify_resolved :: "arith \<Rightarrow> (pyval \<rightharpoonup> pyval) \<Rightarrow> pyval list \<Rightarrow> pyerr + result" where
  "classify_resolved ar by_name landmarks =
     (let wrist = g by_name landmarks ''wrist'' 0;
          thumb_tip = g by_name landmarks ''thumb_tip'' 4;
          thumb_ip = g by_name landmarks ''thumb_ip'' 3;
          index_tip = g by_name landmarks ''index_finger_tip'' 8;
          index_pip = g by_name landmarks ''index_finger_pip'' 6;
          middle_tip = g by_name landmarks ''middle_finger_tip'' 12;
          middle_pip = g by_name landmarks ''middle_finger_pip'' 10;
          ring_tip = g by_name landmarks ''ring_finger_tip'' 16;
          ring_pip = g by_name landmarks ''ring_finger_pip'' 14;
          pinky_tip = g by_name landmarks ''pinky_finger_tip'' 20;
          pinky_pip = g by_name landmarks ''pinky_finger_pip'' 18
      in
      if \<not> truthy wrist then Inr no_wrist
      else
        bind_err (extended ar wrist thumb_tip thumb_ip) (\<lambda>thumb.
        bind_err (extended ar wrist index_tip index_pip) (\<lambda>index.
        bind_err (extended ar wrist middle_tip middle_pip) (\<lambda>middle.
        bind_err (extended ar wrist ring_tip ring_pip) (\<lambda>ring.
        bind_err (extended ar wrist pinky_tip pinky_pip) (\<lambda>pinky.
        bind_err (dist_lm ar thumb_tip index_tip) (\<lambda>pinch_d.
        Inr (sign_rules thumb index middle ring pinky thumb_tip index_tip pinch_d))))))))"

text \<open>
  \<^verbatim>\<open>classify_sign(landmarks)\<close>: anything that is not a \<^verbatim>\<open>list\<close> of at least 21
  elements leaves at once.
\<close>

definition classify_sign :: "arith \<Rightarrow> pyval \<Rightarrow> pyerr + result" where
  "classify_sign ar landmarks =
     (case landmarks of
        PList lms \<Rightarrow>
          (if length lms < 21 then Inr not_enough_landmarks
           else bind_err (by_name_loop lms Map.empty) (\<lambda>by_name.
                  classify_resolved ar by_name lms))
      | _ \<Rightarrow> Inr not_enough_landmarks)"

section \<open>The rule table of the specification\<close>

text \<open>
  Section 4.3 of the specification words the decision procedure as a table of
  thirteen rows in strict priority order, the first matching row giving the result.
  \<open>spec_rule_table\<close> writes that table down from the specification's words, each row
  a condition with its result; \<open>first_match\<close> reads a table. They are compared with
  \<open>sign_rules\<close>, which follows the source.
\<close>

definition spec_rule_table ::
  "bool \<Rightarrow> bool \<Rightarrow> bool \<Rightarrow> bool \<Rightarrow> bool \<Rightarrow> pyval \<Rightarrow> pyval \<Rightarrow> double \<Rightarrow> (bool \<times> result) list"
  where
  "spec_rule_table thumb index middle ring pinky thumb_tip index_tip pinch_d =
     (let fs = fingers_dict thumb index middle ring pinky;
          n = count_fingers thumb index middle ring pinky
      in
      [(pinky \<and> \<not> thumb \<and> \<not> index \<and> \<not> middle \<and> \<not> ring,
          (''Pinky'', 0.88, fs @ [(''reason'', PStr ''TOILET'')])),
       (middle \<and> \<not> thumb \<and> \<not> index \<and> \<not> ring \<and> \<not> pinky,
          (''Middle'', 0.88, fs @ [(''reason'', PStr ''ANGRY'')])),
       (ring \<and> middle \<and> pinky \<and> \<not> thumb \<and> \<not> index,
          (''Ring Pinky Middle'', 0.90, fs @ [(''reason'', PStr ''AWESOME'')])),
       (truthy thumb_tip \<and> truthy index_tip \<and> double_lt pinch_d lit_0_06,
          (''Pinch'', 0.86, fs @ [(''pinch_distance'', PFloat pinch_d)])),
       (index \<and> \<not> middle \<and> \<not> ring \<and> \<not> pinky,
          (''Point'', 0.87, fs @ [(''reason'', PStr ''POINT'')])),
       (index \<and> middle \<and> \<not> ring \<and> \<not> pinky,
          (''Peace'', 0.88, fs @ [(''reason'', PStr ''PEACE'')])),
       (index \<and> pinky \<and> \<not> middle \<and> \<not> ring,
          (''Rock'', 0.88, fs @ [(''reason'', PStr ''ROCK'')])),
       (thumb \<and> n = 1,
          (''Thumbs Up'', 0.90, fs @ [(''reason'', PStr ''THUMBS_UP'')])),
       (n = 0, (''Fist'', 0.85, fs @ [(''reason'', PStr ''FIST'')])),
       (n = 5, (''Open Hand'', 0.92, fs @ [(''reason'', PStr ''OPEN_HAND'')])),
       (n = 4, (''Four Fingers'', 0.82, fs @ [(''reason'', PStr ''FOUR'')])),
       (n = 3, (''Three Fingers'', 0.80, fs @ [(''reason'', PStr ''THREE'')])),
       (True, (''Unknown'', 0.30, fs @ [(''reason'', PStr ''UNKNOWN'')]))])"

fun first_match :: "(bool \<times> 'a) list \<Rightarrow> 'a option" where
  "first_match [] = None"
| "first_match ((c, r) # rows) = (if c then Some r else first_match rows)"

section \<open>Well-formed landmarks\<close>

text \<open>
  The docstring of \<^verbatim>\<open>classify_sign\<close> describes its input as a list of dicts
  \<^verbatim>\<open>{x, y, z, name}\<close>. A \<open>named_record\<close> is a dict whose name, when truthy, can be
  a dictionary key; a \<open>landmark_record\<close> is moreover one whose \<^verbatim>\<open>x\<close> and \<^verbatim>\<open>y\<close>,
  when present, are accepted by \<^verbatim>\<open>float()\<close>; a \<open>finite_record\<close> is a dict whose
  \<^verbatim>\<open>x\<close> and \<^verbatim>\<open>y\<close> are coerced to finite floats.
\<close>

definition named_record :: "pyval \<Rightarrow> bool" where
  "named_record lm =
     (case lm of
        PDict kvs \<Rightarrow>
          (case map_of kvs ''name'' of None \<Rightarrow> True | Some n \<Rightarrow> \<not> truthy n \<or> hashable n)
      | _ \<Rightarrow> False)"

definition coercible :: "arith \<Rightarrow> pyval \<Rightarrow> string \<Rightarrow> bool" where
  "coercible ar lm k =
     (case py_get lm k (PFloat (Fin 0)) of
        Inr v \<Rightarrow> (case py_float ar v of Inr d \<Rightarrow> True | Inl e \<Rightarrow> False)
      | Inl e \<Rightarrow> False)"

definition landmark_record :: "arith \<Rightarrow> pyval \<Rightarrow> bool" where
  "landmark_record ar lm = (named_record lm \<and> coercible ar lm ''x'' \<and> coercible ar lm ''y'')"

definition finite_coord :: "arith \<Rightarrow> pyval \<Rightarrow> string \<Rightarrow> bool" where
  "finite_coord ar lm k =
     (case py_get lm k (PFloat (Fin 0)) of
        Inr v \<Rightarrow> (case py_float ar v of Inr (Fin r) \<Rightarrow> True | _ \<Rightarrow> False)
      | Inl e \<Rightarrow> False)"

definition finite_record :: "arith \<Rightarrow> pyval \<Rightarrow> bool" where
  "finite_record ar lm = (finite_coord ar lm ''x'' \<and> finite_coord ar lm ''y'')"

text \<open>
  Two facts of IEEE arithmetic that the symmetry of \<^verbatim>\<open>dist\<close> rests on: the
  difference of two finite floats is no NaN and changes sign when the operands are
  swapped, and \<^verbatim>\<open>math.hypot\<close> ignores the signs of its arguments and returns no
  NaN unless it is given one.
\<close>

definition sign_symmetric :: "arith \<Rightarrow> bool" where
  "sign_symmetric ar \<longleftrightarrow>
     (\<forall>p q. fsub ar (Fin q) (Fin p) = neg (fsub ar (Fin p) (Fin q)) \<and>
            fsub ar (Fin p) (Fin q) \<noteq> NaN) \<and>
     (\<forall>u v. fhypot ar (neg u) (neg v) = fhypot ar u v \<and>
            (u \<noteq> NaN \<and> v \<noteq> NaN \<longrightarrow> fhypot ar u v \<noteq> NaN))"

section \<open>IEEE 754 arithmetic\<close>

text \<open>
  The arithmetic of CPython on the usual platforms, on which the classifier is
  evaluated below. \<open>is_double\<close> says that a real is the value of a finite double: an
  integer of fewer than 54 bits scaled by a power of two between \<open>2^-1074\<close> and
  \<open>2^971\<close>. \<open>round_double\<close> rounds a real to the nearest double, ties to the even
  mantissa, and to an infinity from \<open>2^1024 - 2^970\<close> on; a real that is a double
  is its own rounding.
\<close>

definition is_double :: "real \<Rightarrow> bool" where
  "is_double x \<longleftrightarrow>
     (\<exists>(m::int) (k::nat). \<bar>m\<bar> < 2 ^ 53 \<and>
        ((k \<le> 971 \<and> x = real_of_int m * 2 ^ k) \<or> (k \<le> 1074 \<and> x = real_of_int m / 2 ^ k)))"

definition round_half_even :: "real \<Rightarrow> int" where
  "round_half_even y =
     (let f = \<lfloor>y\<rfloor>; d = y - real_of_int f
      in if d < 1 / 2 then f else if 1 / 2 < d then f + 1 else if even f then f else f + 1)"

definition nearest :: "real \<Rightarrow> double" where
  "nearest x =
     (let e = max \<lfloor>log 2 x\<rfloor> (- 1022);
          u = 2 powr real_of_int (e - 52);
          r = real_of_int (round_half_even (x / u)) * u
      in if 2 ^ 1024 \<le> r then PInf else Fin r)"

definition round_magnitude :: "real \<Rightarrow> double" where
  "round_magnitude x = (if is_double x then Fin x else nearest x)"

definition round_double :: "real \<Rightarrow> double" where
  "round_double x = (if x < 0 then neg (round_magnitude (- x)) else round_magnitude x)"

fun ieee_add :: "double \<Rightarrow> double \<Rightarrow> double" where
  "ieee_add (Fin a) (Fin b) = round_double (a + b)"
| "ieee_add NaN y = NaN"
| "ieee_add x NaN = NaN"
| "ieee_add PInf NInf = NaN"
| "ieee_add NInf PInf = NaN"
| "ieee_add PInf y = PInf"
| "ieee_add x PInf = PInf"
| "ieee_add NInf y = NInf"
| "ieee_add x NInf = NInf"

definition hypot :: "real \<Rightarrow> real \<Rightarrow> real" where
  "hypot x y = sqrt (x * x + y * y)"

text \<open>
  \<^verbatim>\<open>math.hypot\<close>: infinite when an argument is, else NaN when an argument is, else
  the rounded root of the sum of the squares. (CPython documents its result as
  within one unit in the last place of this; the two are equal when an argument is
  zero, which is so in every hand below.)
\<close>

fun ieee_hypot :: "double \<Rightarrow> double \<Rightarrow> double" where
  "ieee_hypot (Fin a) (Fin b) = round_double (hypot a b)"
| "ieee_hypot PInf y = PInf"
| "ieee_hypot NInf y = PInf"
| "ieee_hypot x PInf = PInf"
| "ieee_hypot x NInf = PInf"
| "ieee_hypot x y = NaN"

definition ieee754 :: "(string \<Rightarrow> double option) \<Rightarrow> arith" where
  "ieee754 parse =
     \<lparr>fadd = ieee_add,
      fsub = (\<lambda>x y. ieee_add x (neg y)),
      fhypot = ieee_hypot,
      float_of_int =
        (\<lambda>i. case round_double (real_of_int i) of Fin r \<Rightarrow> Some (Fin r) | _ \<Rightarrow> None),
      float_of_str = parse\<rparr>"

section \<open>Concrete hands\<close>

text \<open>
  Inputs on which the classifier is evaluated below, under \<open>ieee754\<close>. None of them
  has a string coordinate, so the string parser is \<open>Map.empty\<close>. All coordinates are
  doubles whose differences are doubles again, so no operation on them rounds.
\<close>

text \<open>A landmark record with the two coordinates, and one that also carries a name.\<close>

definition landmark :: "real \<Rightarrow> real \<Rightarrow> pyval" where
  "landmark x y = PDict [(''x'', PFloat (Fin x)), (''y'', PFloat (Fin y))]"

definition named :: "string \<Rightarrow> real \<Rightarrow> real \<Rightarrow> pyval" where
  "named n x y = PDict [(''x'', PFloat (Fin x)), (''y'', PFloat (Fin y)), (''name'', PStr n)]"

definition centre :: pyval where
  "centre = landmark 0.5 0.5"

definition away :: pyval where
  "away = landmark 0.75 0.5"

text \<open>Points 1/16 and 1/32 to the right of \<open>centre\<close>.\<close>

definition near16 :: pyval where
  "near16 = landmark 0.5625 0.5"

definition near32 :: pyval where
  "near32 = landmark 0.53125 0.5"

text \<open>All 21 landmarks at one point.\<close>

definition hand_closed :: "pyval list" where
  "hand_closed =
     [centre, centre, centre, centre, centre, centre, centre,
      centre, centre, centre, centre, centre, centre, centre,
      centre, centre, centre, centre, centre, centre, centre]"

text \<open>A list of 21 integers, as the JSON array \<^verbatim>\<open>[0, 0, ..., 0]\<close> decodes.\<close>

definition hand_numbers :: "pyval list" where
  "hand_numbers =
     [PInt 0, PInt 0, PInt 0, PInt 0, PInt 0, PInt 0, PInt 0,
      PInt 0, PInt 0, PInt 0, PInt 0, PInt 0, PInt 0, PInt 0,
      PInt 0, PInt 0, PInt 0, PInt 0, PInt 0, PInt 0, PInt 0]"

text \<open>Only the thumb tip (index 4) is away from the wrist.\<close>

definition hand_thumb :: "pyval list" where
  "hand_thumb =
     [centre, centre, centre, centre, away, centre, centre,
      centre, centre, centre, centre, centre, centre, centre,
      centre, centre, centre, centre, centre, centre, centre]"

text \<open>
  The thumb tip (4) is 1/16 from the wrist, the index tip (8) 1/32: the thumb is
  extended, the index finger is not, and the two tips are 1/32 apart.
\<close>

definition hand_thumb_pinch :: "pyval list" where
  "hand_thumb_pinch =
     [centre, centre, centre, centre, near16, centre, centre,
      centre, near32, centre, centre, centre, centre, centre,
      centre, centre, centre, centre, centre, centre, centre]"

text \<open>
  The index tip (8) is 1/16 from the wrist, the thumb tip (4) 1/32: the index finger
  is extended, the thumb is not, and the two tips are 1/32 apart.
\<close>

definition hand_point_pinch :: "pyval list" where
  "hand_point_pinch =
     [centre, centre, centre, centre, near32, centre, centre,
      centre, near16, centre, centre, centre, centre, centre,
      centre, centre, centre, centre, centre, centre, centre]"

text \<open>Only the pinky tip (20) is away from the wrist; thumb tip and index tip touch.\<close>

definition hand_pinky_pinch :: "pyval list" where
  "hand_pinky_pinch =
     [centre, centre, centre, centre, centre, centre, centre,
      centre, centre, centre, centre, centre, centre, centre,
      centre, centre, centre, centre, centre, centre, away]"

text \<open>Index tip (8) and middle tip (12) are away from the wrist and from the thumb tip.\<close>

definition hand_peace :: "pyval list" where
  "hand_peace =
     [centre, centre, centre, centre, centre, centre, centre,
      centre, away, centre, centre, centre, away, centre,
      centre, centre, centre, centre, centre, centre, centre]"

text \<open>
  The element at index 0 is the empty dict, \<^verbatim>\<open>None\<close>, respectively the integer 0.
\<close>

definition hand_empty_wrist :: "pyval list" where
  "hand_empty_wrist =
     [PDict [], centre, centre, centre, centre, centre, centre,
      centre, centre, centre, centre, centre, centre, centre,
      centre, centre, centre, centre, centre, centre, centre]"

definition hand_null_wrist :: "pyval list" where
  "hand_null_wrist =
     [PNone, centre, centre, centre, centre, centre, centre,
      centre, centre, centre, centre, centre, centre, centre,
      centre, centre, centre, centre, centre, centre, centre]"

definition hand_zero_wrist :: "pyval list" where
  "hand_zero_wrist =
     [PInt 0, centre, centre, centre, centre, centre, centre,
      centre, centre, centre, centre, centre, centre, centre,
      centre, centre, centre, centre, centre, centre, centre]"

text \<open>Two landmarks named \<^verbatim>\<open>wrist\<close>, at indices 5 and 7.\<close>

definition hand_named :: "pyval list" where
  "hand_named =
     [centre, centre, centre, centre, centre, named ''wrist'' 0.125 0.125, centre,
      named ''wrist'' 0.25 0.25, centre, centre, centre, centre, centre, centre,
      centre, centre, centre, centre, centre, centre, centre]"

text \<open>
  A wrist at \<open>x = 0\<close>, a pip at the double 0.04 and tips at the double 0.08 and at
  the next double above it. In doubles \<^verbatim>\<open>0.04 + 0.04 == 0.08\<close>.
\<close>

definition boundary_wrist :: pyval where
  "boundary_wrist = landmark 0 0.5"

definition boundary_pip :: pyval where
  "boundary_pip = landmark (5764607523034235 / 2 ^ 57) 0.5"

definition boundary_tip :: pyval where
  "boundary_tip = landmark (5764607523034235 / 2 ^ 56) 0.5"

definition above_boundary_tip :: pyval where
  "above_boundary_tip = landmark (5764607523034236 / 2 ^ 56) 0.5"

text \<open>A landmark whose \<^verbatim>\<open>x\<close> is NaN, as the JSON literal \<^verbatim>\<open>NaN\<close> decodes.\<close>

definition nan_landmark :: pyval where
  "nan_landmark = PDict [(''x'', PFloat NaN), (''y'', PFloat (Fin 0.5))]"

section \<open>Properties of the helpers\<close>

lemma bind_err_simps [simp]:
  "bind_err (Inl e) f = Inl e" "bind_err (Inr x) f = f x"
  by (simp_all add: bind_err_def)

lemma bind_err_Inr_iff:
  "bind_err m f = Inr y \<longleftrightarrow> (\<exists>x. m = Inr x \<and> f x = Inr y)"
  by (cases m) simp_all

lemma double_gt_irrefl: "\<not> double_gt x x"
  by (cases x) (simp_all add: double_gt_def)

lemma neg_neg [simp]: "neg (neg x) = x"
  by (cases x) simp_all

lemma neg_eq_NaN [simp]: "neg x = NaN \<longleftrightarrow> x = NaN"
  by (cases x) simp_all

lemma coercibleE:
  assumes "coercible ar lm k"
  obtains v r where "py_get lm k (PFloat (Fin 0)) = Inr v" "py_float ar v = Inr r"
  using assms unfolding coercible_def by (auto split: sum.splits)

lemma dist_lm_total:
  assumes a: "\<not> truthy a \<or> (coercible ar a ''x'' \<and> coercible ar a ''y'')"
    and b: "\<not> truthy b \<or> (coercible ar b ''x'' \<and> coercible ar b ''y'')"
  shows "\<exists>d. dist_lm ar a b = Inr d"
proof (cases "\<not> truthy a \<or> \<not> truthy b")
  case True
  then show ?thesis by (simp add: dist_lm_def)
next
  case False
  with a b have ca: "coercible ar a ''x''" "coercible ar a ''y''"
    and cb: "coercible ar b ''x''" "coercible ar b ''y''" by auto
  from ca cb show ?thesis
    unfolding dist_lm_def
    by (elim coercibleE) (simp add: False)
qed

lemma extended_total:
  assumes "\<not> truthy w \<or> (coercible ar w ''x'' \<and> coercible ar w ''y'')"
    and "\<not> truthy t \<or> (coercible ar t ''x'' \<and> coercible ar t ''y'')"
    and "\<not> truthy p \<or> (coercible ar p ''x'' \<and> coercible ar p ''y'')"
  shows "\<exists>e. extended ar w t p = Inr e"
proof -
  obtain dt where dt: "dist_lm ar t w = Inr dt" using dist_lm_total [OF assms(2) assms(1)] by blast
  obtain dp where dp: "dist_lm ar p w = Inr dp" using dist_lm_total [OF assms(3) assms(1)] by blast
  show ?thesis by (auto simp: extended_def dt dp)
qed

lemma by_name_loop_total:
  "list_all named_record lms \<Longrightarrow> \<exists>bn. by_name_loop lms acc = Inr bn"
proof (induction lms arbitrary: acc)
  case Nil
  then show ?case by simp
next
  case (Cons lm lms)
  then show ?case
    by (cases lm) (auto simp: named_record_def split: option.splits)
qed

lemma by_name_loop_values:
  "by_name_loop lms acc = Inr bn \<Longrightarrow> bn k = Some v \<Longrightarrow> acc k = Some v \<or> v \<in> set lms"
proof (induction lms arbitrary: acc)
  case Nil
  then show ?case by simp
next
  case (Cons lm lms)
  then show ?case
    by (fastforce simp: bind_err_Inr_iff split: if_splits)
qed

lemma by_name_loop_unnamed:
  "by_name_loop lms acc = Inr bn \<Longrightarrow>
   \<forall>lm \<in> set lms. py_get lm ''name'' PNone \<noteq> Inr k \<Longrightarrow> bn k = acc k"
proof (induction lms arbitrary: acc)
  case Nil
  then show ?case by simp
next
  case (Cons lm lms)
  then show ?case
    by (fastforce simp: bind_err_Inr_iff split: if_splits)
qed

lemma by_name_loop_last:
  "by_name_loop lms acc = Inr bn \<Longrightarrow> i < length lms \<Longrightarrow>
   py_get (lms ! i) ''name'' PNone = Inr k \<Longrightarrow> truthy k \<Longrightarrow>
   \<forall>j. i < j \<and> j < length lms \<longrightarrow> py_get (lms ! j) ''name'' PNone \<noteq> Inr k \<Longrightarrow>
   bn k = Some (lms ! i)"
proof (induction lms arbitrary: acc i)
  case Nil
  then show ?case by simp
next
  case (Cons lm lms)
  show ?case
  proof (cases i)
    case 0
    with Cons.prems have loop: "by_name_loop lms (acc(k \<mapsto> lm)) = Inr bn"
      by (auto split: if_splits)
    have "\<forall>x \<in> set lms. py_get x ''name'' PNone \<noteq> Inr k"
    proof
      fix x assume "x \<in> set lms"
      then obtain j where "j < length lms" "lms ! j = x" by (auto simp: in_set_conv_nth)
      with Cons.prems(5) [rule_format, of "Suc j"] 0 show "py_get x ''name'' PNone \<noteq> Inr k"
        by simp
    qed
    from by_name_loop_unnamed [OF loop this] 0 show ?thesis by simp
  next
    case (Suc i')
    from Cons.prems(1) obtain acc' where loop: "by_name_loop lms acc' = Inr bn"
      by (auto simp: bind_err_Inr_iff split: if_splits)
    have later: "\<forall>j. i' < j \<and> j < length lms \<longrightarrow> py_get (lms ! j) ''name'' PNone \<noteq> Inr k"
    proof (intro allI impI)
      fix j assume "i' < j \<and> j < length lms"
      with Cons.prems(5) [rule_format, of "Suc j"] Suc
      show "py_get (lms ! j) ''name'' PNone \<noteq> Inr k" by simp
    qed
    have "bn k = Some (lms ! i')"
    proof (rule Cons.IH [OF loop _ _ Cons.prems(4) later])
      show "i' < length lms" using Cons.prems(2) Suc by simp
      show "py_get (lms ! i') ''name'' PNone = Inr k" using Cons.prems(3) Suc by simp
    qed
    with Suc show ?thesis by simp
  qed
qed

lemma landmark_record_g:
  assumes all: "list_all (landmark_record ar) lms"
    and loop: "by_name_loop lms Map.empty = Inr bn"
    and idx: "idx < length lms"
  shows "landmark_record ar (g bn lms name idx)"
proof (cases "bn (PStr name)")
  case None
  with idx all show ?thesis by (simp add: g_def list_all_length)
next
  case (Some v)
  with by_name_loop_values [OF loop Some] have "v \<in> set lms" by simp
  with all Some show ?thesis by (simp add: g_def list_all_iff)
qed

lemma classify_resolved_total:
  assumes all: "list_all (landmark_record ar) lms"
    and loop: "by_name_loop lms Map.empty = Inr bn"
    and len: "21 \<le> length lms"
  shows "\<exists>r. classify_resolved ar bn lms = Inr r"
proof -
  have ok: "coercible ar (g bn lms name idx) ''x''" "coercible ar (g bn lms name idx) ''y''"
    if "idx < 21" for name idx
    using landmark_record_g [OF all loop, of idx name] that len
    by (simp_all add: landmark_record_def)
  have ext: "\<exists>e. extended ar (g bn lms ''wrist'' 0) (g bn lms n1 i1) (g bn lms n2 i2) = Inr e"
    if "i1 < 21" "i2 < 21" for n1 i1 n2 i2
    by (rule extended_total) (simp_all add: ok that)
  have pin: "\<exists>d. dist_lm ar (g bn lms ''thumb_tip'' 4) (g bn lms ''index_finger_tip'' 8) = Inr d"
    by (rule dist_lm_total) (simp_all add: ok)
  obtain thumb where thumb: "extended ar (g bn lms ''wrist'' 0) (g bn lms ''thumb_tip'' 4)
      (g bn lms ''thumb_ip'' 3) = Inr thumb"
    using ext [of 4 3] by auto
  obtain index where index: "extended ar (g bn lms ''wrist'' 0) (g bn lms ''index_finger_tip'' 8)
      (g bn lms ''index_finger_pip'' 6) = Inr index"
    using ext [of 8 6] by auto
  obtain middle where middle: "extended ar (g bn lms ''wrist'' 0) (g bn lms ''middle_finger_tip'' 12)
      (g bn lms ''middle_finger_pip'' 10) = Inr middle"
    using ext [of 12 10] by auto
  obtain ring where ring: "extended ar (g bn lms ''wrist'' 0) (g bn lms ''ring_finger_tip'' 16)
      (g bn lms ''ring_finger_pip'' 14) = Inr ring"
    using ext [of 16 14] by auto
  obtain pinky where pinky: "extended ar (g bn lms ''wrist'' 0) (g bn lms ''pinky_finger_tip'' 20)
      (g bn lms ''pinky_finger_pip'' 18) = Inr pinky"
    using ext [of 20 18] by auto
  from pin obtain d where d: "dist_lm ar (g bn lms ''thumb_tip'' 4) (g bn lms ''index_finger_tip'' 8) = Inr d"
    by auto
  show ?thesis
    by (simp add: classify_resolved_def Let_def thumb index middle ring pinky d
          del: split_paired_Ex)
qed

lemma classify_resolved_cases:
  "classify_resolved ar bn lms = Inr r \<Longrightarrow>
   r = no_wrist \<or>
   (\<exists>thumb index middle ring pinky d.
      r = sign_rules thumb index middle ring pinky
            (g bn lms ''thumb_tip'' 4) (g bn lms ''index_finger_tip'' 8) d)"
  unfolding classify_resolved_def Let_def
  by (simp add: bind_err_Inr_iff split: if_splits) blast

lemma sign_rules_debug_length:
  "length (snd (snd (sign_rules thumb index middle ring pinky thumb_tip index_tip d))) = 6"
  by (simp add: sign_rules_def Let_def fingers_dict_def)

lemma classify_resolved_not_early:
  "classify_resolved ar bn lms \<noteq> Inr not_enough_landmarks"
proof
  assume "classify_resolved ar bn lms = Inr not_enough_landmarks"
  from classify_resolved_cases [OF this] show False
  proof (elim disjE exE)
    assume "not_enough_landmarks = no_wrist"
    then show False by (simp add: not_enough_landmarks_def no_wrist_def)
  next
    fix thumb index middle ring pinky d
    assume "not_enough_landmarks = sign_rules thumb index middle ring pinky
            (g bn lms ''thumb_tip'' 4) (g bn lms ''index_finger_tip'' 8) d"
    then have "length (snd (snd not_enough_landmarks)) = 6"
      by (metis sign_rules_debug_length)
    then show False by (simp add: not_enough_landmarks_def)
  qed
qed

lemma classify_sign_rules:
  assumes "21 \<le> length lms"
    and "by_name_loop lms Map.empty = Inr bn"
    and "truthy (g bn lms ''wrist'' 0)"
    and "extended ar (g bn lms ''wrist'' 0) (g bn lms ''thumb_tip'' 4) (g bn lms ''thumb_ip'' 3) = Inr thumb"
    and "extended ar (g bn lms ''wrist'' 0) (g bn lms ''index_finger_tip'' 8) (g bn lms ''index_finger_pip'' 6) = Inr index"
    and "extended ar (g bn lms ''wrist'' 0) (g bn lms ''middle_finger_tip'' 12) (g bn lms ''middle_finger_pip'' 10) = Inr middle"
    and "extended ar (g bn lms ''wrist'' 0) (g bn lms ''ring_finger_tip'' 16) (g bn lms ''ring_finger_pip'' 14) = Inr ring"
    and "extended ar (g bn lms ''wrist'' 0) (g bn lms ''pinky_finger_tip'' 20) (g bn lms ''pinky_finger_pip'' 18) = Inr pinky"
    and "dist_lm ar (g bn lms ''thumb_tip'' 4) (g bn lms ''index_finger_tip'' 8) = Inr pinch_d"
  shows "classify_sign ar (PList lms) =
     Inr (sign_rules thumb index middle ring pinky
            (g bn lms ''thumb_tip'' 4) (g bn lms ''index_finger_tip'' 8) pinch_d)"
  using assms by (simp add: classify_sign_def classify_resolved_def Let_def)


lemma classify_sign_no_wrist:
  assumes "21 \<le> length lms" and "by_name_loop lms Map.empty = Inr bn"
    and "\<not> truthy (g bn lms ''wrist'' 0)"
  shows "classify_sign ar (PList lms) = Inr no_wrist"
  using assms by (simp add: classify_sign_def classify_resolved_def Let_def)



text \<open>
  The if-chain of the source and the table of the specification agree: reading the
  table gives what \<open>sign_rules\<close> returns.
\<close>

lemma Some_if: "(if c then Some r else Some x) = Some (if c then r else x)"
  by simp

lemma first_match_spec_rule_table:
  "first_match (spec_rule_table thumb index middle ring pinky thumb_tip index_tip pinch_d) =
     Some (sign_rules thumb index middle ring pinky thumb_tip index_tip pinch_d)"
  by (simp only: spec_rule_table_def sign_rules_def Let_def first_match.simps if_True Some_if)

section \<open>Properties of the IEEE arithmetic\<close>

lemma hypot_0 [simp]: "hypot x 0 = \<bar>x\<bar>"
  by (simp add: hypot_def)

lemma hypot_minus [simp]: "hypot (- x) (- y) = hypot x y"
  by (simp add: hypot_def)

lemma is_double_div: "\<bar>m\<bar> < 2 ^ 53 \<Longrightarrow> k \<le> 1074 \<Longrightarrow> is_double (real_of_int m / 2 ^ k)"
  unfolding is_double_def by blast

lemma is_double_minus: "is_double (- x) = is_double x"
proof -
  have "is_double (- y)" if "is_double y" for y
  proof -
    from that obtain m :: int and k :: nat where m: "\<bar>m\<bar> < 2 ^ 53"
      and y: "(k \<le> 971 \<and> y = real_of_int m * 2 ^ k) \<or> (k \<le> 1074 \<and> y = real_of_int m / 2 ^ k)"
      unfolding is_double_def by blast
    have "\<bar>- m\<bar> < 2 ^ 53" using m by simp
    moreover from y have "(k \<le> 971 \<and> - y = real_of_int (- m) * 2 ^ k) \<or>
        (k \<le> 1074 \<and> - y = real_of_int (- m) / 2 ^ k)" by auto
    ultimately show ?thesis unfolding is_double_def by blast
  qed
  from this [of x] this [of "- x"] show ?thesis by auto
qed

lemma round_double_exact: "is_double x \<Longrightarrow> round_double x = Fin x"
  by (simp add: round_double_def round_magnitude_def is_double_minus)

lemma round_magnitude_not_NaN: "round_magnitude x \<noteq> NaN"
  by (simp add: round_magnitude_def nearest_def Let_def)

lemma round_double_not_NaN: "round_double x \<noteq> NaN"
  by (simp add: round_double_def round_magnitude_not_NaN)

lemma round_double_minus: "round_double (- x) = neg (round_double x)"
proof -
  have "round_magnitude 0 = Fin 0"
    using is_double_div [of 0 0] by (simp add: round_magnitude_def)
  then show ?thesis
    by (cases "x = 0") (auto simp: round_double_def)
qed

lemma ieee_hypot_neg: "ieee_hypot (neg u) (neg v) = ieee_hypot u v"
  by (cases u; cases v) simp_all

lemma ieee_hypot_not_NaN: "u \<noteq> NaN \<Longrightarrow> v \<noteq> NaN \<Longrightarrow> ieee_hypot u v \<noteq> NaN"
  by (cases u; cases v) (simp_all add: round_double_not_NaN)

lemma ieee754_sign_symmetric: "sign_symmetric (ieee754 parse)"
proof -
  have swap: "round_double (q - p) = neg (round_double (p - q))" for p q :: real
    using round_double_minus [of "p - q"] by simp
  have "fsub (ieee754 parse) (Fin q) (Fin p) = neg (fsub (ieee754 parse) (Fin p) (Fin q))"
    for p q
    by (simp add: ieee754_def) (rule swap)
  moreover have "fsub (ieee754 parse) (Fin p) (Fin q) \<noteq> NaN" for p q
    by (simp add: ieee754_def round_double_not_NaN)
  moreover have "fhypot (ieee754 parse) (neg u) (neg v) = fhypot (ieee754 parse) u v" for u v
    by (simp add: ieee754_def ieee_hypot_neg)
  moreover have "u \<noteq> NaN \<and> v \<noteq> NaN \<longrightarrow> fhypot (ieee754 parse) u v \<noteq> NaN" for u v
    by (simp add: ieee754_def ieee_hypot_not_NaN)
  ultimately show ?thesis
    unfolding sign_symmetric_def by blast
qed

text \<open>The doubles that occur when the hands above are classified.\<close>

lemma doubles_of_hands:
  "is_double 0" "is_double (1 / 4)" "is_double (1 / 16)" "is_double (1 / 32)"
  "is_double (5764607523034235 / 144115188075855872)"
  "is_double (5764607523034235 / 72057594037927936)"
  "is_double (1441151880758559 / 18014398509481984)"
  using is_double_div [of 0 0] is_double_div [of 1 2] is_double_div [of 1 4]
    is_double_div [of 1 5] is_double_div [of 5764607523034235 57]
    is_double_div [of 5764607523034235 56] is_double_div [of 1441151880758559 54]
  by simp_all

lemmas hand_eval =
  landmark_def centre_def away_def near16_def near32_def g_def extended_def dist_lm_def
  ieee754_def double_gt_def lit_0_04_def lit_0_06_def round_double_exact doubles_of_hands
  is_double_minus

section \<open>Properties of the classifier\<close>

text \<open>
  C1, counterexample. The claim says that \<^verbatim>\<open>classify_sign\<close> never raises, also on
  lists whose elements are no landmark records. On a list of 21 integers the first
  \<^verbatim>\<open>lm.get("name")\<close> of the naming loop raises \<^verbatim>\<open>AttributeError\<close>.
\<close>

theorem classify_sign_raises_counterexample:
  "classify_sign (ieee754 Map.empty) (PList hand_numbers) = Inl AttributeError"
  by (simp add: classify_sign_def hand_numbers_def)

text \<open>
  C1, as amended. For every input that is not a list, every list of fewer than 21
  elements (whatever the elements are), and every list of at least 21 landmark
  records, \<^verbatim>\<open>classify_sign\<close> returns a (label, confidence, debug) triple and does
  not raise, whatever the float arithmetic is; when the input is not a list of at
  least 21 elements the triple is the early exit with the error code
  \<^verbatim>\<open>NOT_ENOUGH_LANDMARKS\<close>.
\<close>

theorem classify_sign_returns:
  assumes "\<And>lms. v = PList lms \<Longrightarrow> 21 \<le> length lms \<Longrightarrow> list_all (landmark_record ar) lms"
  shows "(\<exists>r. classify_sign ar v = Inr r) \<and>
         ((\<forall>lms. v = PList lms \<longrightarrow> length lms < 21) \<longrightarrow>
            classify_sign ar v = Inr not_enough_landmarks)"
proof (cases "\<exists>lms. v = PList lms \<and> 21 \<le> length lms")
  case True
  then obtain lms where v: "v = PList lms" and len: "21 \<le> length lms" by blast
  from assms [OF v len] have all: "list_all (landmark_record ar) lms" .
  then have "list_all named_record lms"
    by (simp add: list_all_iff landmark_record_def)
  from by_name_loop_total [OF this] obtain bn where loop: "by_name_loop lms Map.empty = Inr bn"
    by blast
  from classify_resolved_total [OF all loop len] len v loop show ?thesis
    by (auto simp: classify_sign_def)
next
  case False
  then show ?thesis
    by (cases v) (auto simp: classify_sign_def not_less simp del: split_paired_Ex)
qed

text \<open>
  C1, witness: the hand whose 21 landmarks all sit at one point, and a list of one
  landmark.
\<close>

theorem classify_sign_returns_witness:
  "list_all (landmark_record (ieee754 Map.empty)) hand_closed \<and>
   (\<exists>r. classify_sign (ieee754 Map.empty) (PList hand_closed) = Inr r) \<and>
   classify_sign (ieee754 Map.empty) (PList [centre]) = Inr not_enough_landmarks"
proof -
  have rec: "list_all (landmark_record (ieee754 Map.empty)) hand_closed"
    by (simp add: hand_closed_def centre_def landmark_def landmark_record_def named_record_def
        coercible_def)
  from classify_sign_returns [of "PList hand_closed" "ieee754 Map.empty"] rec
  have "\<exists>r. classify_sign (ieee754 Map.empty) (PList hand_closed) = Inr r" by simp
  moreover from classify_sign_returns [of "PList [centre]" "ieee754 Map.empty"]
  have "classify_sign (ieee754 Map.empty) (PList [centre]) = Inr not_enough_landmarks" by simp
  ultimately show ?thesis using rec by blast
qed

text \<open>
  C2, counterexample. The claim says that every sequence of length at least 21, of
  any sequence type, proceeds past the length check. The check is
  \<^verbatim>\<open>isinstance(landmarks, list)\<close>: the 21 landmarks that classify as a pinch when
  given as a list leave with \<^verbatim>\<open>NOT_ENOUGH_LANDMARKS\<close> when given as a tuple.
\<close>

theorem early_exit_tuple_counterexample:
  "length hand_closed = 21 \<and>
   classify_sign (ieee754 Map.empty) (PTuple hand_closed) = Inr not_enough_landmarks \<and>
   classify_sign (ieee754 Map.empty) (PList hand_closed) =
     Inr (''Pinch'', 0.86,
          fingers_dict False False False False False @ [(''pinch_distance'', PFloat (Fin 0))])"
  by (simp add: classify_sign_def classify_resolved_def sign_rules_def count_fingers_def
      hand_closed_def hand_eval)

text \<open>
  C2, as amended. \<^verbatim>\<open>classify_sign\<close> returns the early-exit result (label
  \<^verbatim>\<open>Unknown\<close>, confidence 0.2, debug \<^verbatim>\<open>{error: NOT_ENOUGH_LANDMARKS}\<close>) exactly when
  the input is not a list of length at least 21; on that path nothing of the input is
  processed, so no element can make it raise.
\<close>

theorem early_exit_iff:
  "classify_sign ar v = Inr not_enough_landmarks \<longleftrightarrow>
   \<not> (\<exists>lms. v = PList lms \<and> 21 \<le> length lms)"
proof (cases v)
  case (PList lms)
  show ?thesis
  proof (cases "length lms < 21")
    case True
    with PList show ?thesis by (simp add: classify_sign_def)
  next
    case False
    have "classify_sign ar v \<noteq> Inr not_enough_landmarks"
      using PList False classify_resolved_not_early
      by (auto simp: classify_sign_def bind_err_Inr_iff)
    with PList False show ?thesis by simp
  qed
qed (simp_all add: classify_sign_def)

text \<open>
  C3. On every list of at least 21 landmarks that reaches the rule table, the result
  of \<^verbatim>\<open>classify_sign\<close> is the result of the first row of the specification's table
  (section 4.3, in its order) whose condition holds. In particular, when thumb tip
  and index tip resolve (are truthy) and the pinch distance is below 0.06, the result
  is the pinch result whatever the finger pattern is, so pinch wins over rules 5 to
  13 (a Point pattern included), unless the pattern is pinky only, middle only, or
  ring, middle and pinky, whose rules 1 to 3 win over pinch.
\<close>

theorem rule_table_priority:
  assumes "21 \<le> length lms"
    and "by_name_loop lms Map.empty = Inr bn"
    and "wrist = g bn lms ''wrist'' 0" and "truthy wrist"
    and "thumb_tip = g bn lms ''thumb_tip'' 4"
    and "index_tip = g bn lms ''index_finger_tip'' 8"
    and "extended ar wrist thumb_tip (g bn lms ''thumb_ip'' 3) = Inr thumb"
    and "extended ar wrist index_tip (g bn lms ''index_finger_pip'' 6) = Inr index"
    and "extended ar wrist (g bn lms ''middle_finger_tip'' 12)
           (g bn lms ''middle_finger_pip'' 10) = Inr middle"
    and "extended ar wrist (g bn lms ''ring_finger_tip'' 16)
           (g bn lms ''ring_finger_pip'' 14) = Inr ring"
    and "extended ar wrist (g bn lms ''pinky_finger_tip'' 20)
           (g bn lms ''pinky_finger_pip'' 18) = Inr pinky"
    and "dist_lm ar thumb_tip index_tip = Inr pinch_d"
  shows "map_option Inr
       (first_match
          (spec_rule_table thumb index middle ring pinky thumb_tip index_tip pinch_d)) =
     Some (classify_sign ar (PList lms)) \<and>
     (truthy thumb_tip \<and> truthy index_tip \<and> double_lt pinch_d lit_0_06 \<longrightarrow>
        classify_sign ar (PList lms) = Inr
          (if pinky \<and> \<not> thumb \<and> \<not> index \<and> \<not> middle \<and> \<not> ring then
             (''Pinky'', 0.88,
              fingers_dict thumb index middle ring pinky @ [(''reason'', PStr ''TOILET'')])
           else if middle \<and> \<not> thumb \<and> \<not> index \<and> \<not> ring \<and> \<not> pinky then
             (''Middle'', 0.88,
              fingers_dict thumb index middle ring pinky @ [(''reason'', PStr ''ANGRY'')])
           else if ring \<and> middle \<and> pinky \<and> \<not> thumb \<and> \<not> index then
             (''Ring Pinky Middle'', 0.90,
              fingers_dict thumb index middle ring pinky @ [(''reason'', PStr ''AWESOME'')])
           else
             (''Pinch'', 0.86,
              fingers_dict thumb index middle ring pinky
                @ [(''pinch_distance'', PFloat pinch_d)])))"
proof -
  have run: "classify_sign ar (PList lms) =
     Inr (sign_rules thumb index middle ring pinky thumb_tip index_tip pinch_d)"
    using assms classify_sign_rules [of lms bn ar thumb index middle ring pinky pinch_d]
    by simp
  have table: "first_match
      (spec_rule_table thumb index middle ring pinky thumb_tip index_tip pinch_d) =
     Some (sign_rules thumb index middle ring pinky thumb_tip index_tip pinch_d)"
    by (rule first_match_spec_rule_table)
  have pinch: "truthy thumb_tip \<and> truthy index_tip \<and> double_lt pinch_d lit_0_06 \<longrightarrow>
      sign_rules thumb index middle ring pinky thumb_tip index_tip pinch_d =
          (if pinky \<and> \<not> thumb \<and> \<not> index \<and> \<not> middle \<and> \<not> ring then
             (''Pinky'', 0.88,
              fingers_dict thumb index middle ring pinky @ [(''reason'', PStr ''TOILET'')])
           else if middle \<and> \<not> thumb \<and> \<not> index \<and> \<not> ring \<and> \<not> pinky then
             (''Middle'', 0.88,
              fingers_dict thumb index middle ring pinky @ [(''reason'', PStr ''ANGRY'')])
           else if ring \<and> middle \<and> pinky \<and> \<not> thumb \<and> \<not> index then
             (''Ring Pinky Middle'', 0.90,
              fingers_dict thumb index middle ring pinky @ [(''reason'', PStr ''AWESOME'')])
           else
             (''Pinch'', 0.86,
              fingers_dict thumb index middle ring pinky
                @ [(''pinch_distance'', PFloat pinch_d)]))"
    by (simp add: sign_rules_def Let_def)
  from run table pinch show ?thesis by simp
qed

text \<open>
  C3, witness: a hand with the Point pattern (index only) whose thumb tip is 1/32
  from the index tip is a pinch; a hand with the pinky-only pattern and touching
  thumb and index tips is still \<^verbatim>\<open>Pinky\<close>; a hand with index and middle finger
  extended and no pinch is \<^verbatim>\<open>Peace\<close>, the sixth row.
\<close>

theorem rule_table_priority_witness:
  "classify_sign (ieee754 Map.empty) (PList hand_point_pinch) =
     Inr (''Pinch'', 0.86,
          fingers_dict False True False False False
            @ [(''pinch_distance'', PFloat (Fin (1 / 32)))]) \<and>
   classify_sign (ieee754 Map.empty) (PList hand_pinky_pinch) =
     Inr (''Pinky'', 0.88,
          fingers_dict False False False False True @ [(''reason'', PStr ''TOILET'')]) \<and>
   classify_sign (ieee754 Map.empty) (PList hand_peace) =
     Inr (''Peace'', 0.88,
          fingers_dict False True True False False @ [(''reason'', PStr ''PEACE'')])"
proof -
  have a: "by_name_loop hand_point_pinch Map.empty = Inr Map.empty"
    by (simp add: hand_point_pinch_def hand_eval)
  have b: "by_name_loop hand_pinky_pinch Map.empty = Inr Map.empty"
    by (simp add: hand_pinky_pinch_def hand_eval)
  have c: "by_name_loop hand_peace Map.empty = Inr Map.empty"
    by (simp add: hand_peace_def hand_eval)
  have "classify_sign (ieee754 Map.empty) (PList hand_point_pinch) =
     Inr (''Pinch'', 0.86,
          fingers_dict False True False False False
            @ [(''pinch_distance'', PFloat (Fin (1 / 32)))])"
    using rule_table_priority [of hand_point_pinch Map.empty centre near32 near16
        "ieee754 Map.empty" False True False False False "Fin (1 / 32)", OF _ a]
    by (simp add: hand_point_pinch_def hand_eval)
  moreover have "classify_sign (ieee754 Map.empty) (PList hand_pinky_pinch) =
     Inr (''Pinky'', 0.88,
          fingers_dict False False False False True @ [(''reason'', PStr ''TOILET'')])"
    using rule_table_priority [of hand_pinky_pinch Map.empty centre centre centre
        "ieee754 Map.empty" False False False False True "Fin 0", OF _ b]
    by (simp add: hand_pinky_pinch_def hand_eval)
  moreover have "classify_sign (ieee754 Map.empty) (PList hand_peace) =
     Inr (''Peace'', 0.88,
          fingers_dict False True True False False @ [(''reason'', PStr ''PEACE'')])"
  proof -
    have "Some (classify_sign (ieee754 Map.empty) (PList hand_peace)) =
        map_option Inr
          (first_match
             (spec_rule_table False True True False False centre away (Fin (1 / 4))))"
      using rule_table_priority [of hand_peace Map.empty centre centre away
          "ieee754 Map.empty" False True True False False "Fin (1 / 4)", OF _ c]
      by (simp add: hand_peace_def hand_eval del: map_option_eq_Some)
    then show ?thesis
      by (simp add: spec_rule_table_def count_fingers_def Let_def hand_eval)
  qed
  ultimately show ?thesis by simp
qed

text \<open>
  C4, counterexample. The claim says that a hand with the thumb extended and the four
  other fingers retracted is always \<^verbatim>\<open>Thumbs Up\<close>. When the thumb tip is within 0.06
  of the retracted index tip, the pinch rule, which comes first, returns \<^verbatim>\<open>Pinch\<close>
  with that very finger state in its debug mapping.
\<close>

theorem thumbs_up_pinch_counterexample:
  "classify_sign (ieee754 Map.empty) (PList hand_thumb_pinch) =
     Inr (''Pinch'', 0.86,
          fingers_dict True False False False False
            @ [(''pinch_distance'', PFloat (Fin (1 / 32)))])"
  by (simp add: classify_sign_def classify_resolved_def sign_rules_def count_fingers_def
      hand_thumb_pinch_def hand_eval)

text \<open>
  C4, as amended. For every list of at least 21 landmarks whose derived finger state
  has the thumb extended and the four other fingers retracted, and on which the pinch
  rule does not fire (the index tip is unresolved or the pinch distance is not below
  0.06), \<^verbatim>\<open>classify_sign\<close> returns label \<^verbatim>\<open>Thumbs Up\<close>, confidence 0.90 and
  reason \<^verbatim>\<open>THUMBS_UP\<close>, with exactly one finger counted as extended.
\<close>

theorem thumbs_up:
  assumes "21 \<le> length lms"
    and "by_name_loop lms Map.empty = Inr bn"
    and "wrist = g bn lms ''wrist'' 0" and "truthy wrist"
    and "thumb_tip = g bn lms ''thumb_tip'' 4"
    and "index_tip = g bn lms ''index_finger_tip'' 8"
    and "extended ar wrist thumb_tip (g bn lms ''thumb_ip'' 3) = Inr True"
    and "extended ar wrist index_tip (g bn lms ''index_finger_pip'' 6) = Inr False"
    and "extended ar wrist (g bn lms ''middle_finger_tip'' 12)
           (g bn lms ''middle_finger_pip'' 10) = Inr False"
    and "extended ar wrist (g bn lms ''ring_finger_tip'' 16)
           (g bn lms ''ring_finger_pip'' 14) = Inr False"
    and "extended ar wrist (g bn lms ''pinky_finger_tip'' 20)
           (g bn lms ''pinky_finger_pip'' 18) = Inr False"
    and "dist_lm ar thumb_tip index_tip = Inr pinch_d"
    and "\<not> truthy index_tip \<or> \<not> double_lt pinch_d lit_0_06"
  shows "classify_sign ar (PList lms) =
           Inr (''Thumbs Up'', 0.90,
                fingers_dict True False False False False @ [(''reason'', PStr ''THUMBS_UP'')]) \<and>
         count_fingers True False False False False = 1"
proof -
  have "classify_sign ar (PList lms) =
     Inr (sign_rules True False False False False thumb_tip index_tip pinch_d)"
    using assms classify_sign_rules [of lms bn ar True False False False False pinch_d]
    by simp
  with assms(13) show ?thesis
    by (auto simp: sign_rules_def Let_def count_fingers_def)
qed

text \<open>C4, witness: only the thumb tip is moved away from the other landmarks.\<close>

theorem thumbs_up_witness:
  "classify_sign (ieee754 Map.empty) (PList hand_thumb) =
     Inr (''Thumbs Up'', 0.90,
          fingers_dict True False False False False @ [(''reason'', PStr ''THUMBS_UP'')])"
proof -
  have a: "by_name_loop hand_thumb Map.empty = Inr Map.empty"
    by (simp add: hand_thumb_def hand_eval)
  show ?thesis
    using thumbs_up [of hand_thumb Map.empty centre away centre "ieee754 Map.empty"
        "Fin (1 / 4)", OF _ a]
    by (simp add: hand_thumb_def hand_eval)
qed

text \<open>
  C5, the code at the failing input. The claim asks for a reason code on every
  rule-table path, the pinch path included. On the hand whose 21 landmarks coincide
  the pinch rule returns; its debug mapping holds the five finger flags and the pinch
  distance, and neither a \<^verbatim>\<open>reason\<close> nor an \<^verbatim>\<open>error\<close> key, while each of the twelve
  other rules adds a \<^verbatim>\<open>reason\<close>.
\<close>

theorem pinch_debug_without_reason:
  "\<exists>debug. classify_sign (ieee754 Map.empty) (PList hand_closed) =
       Inr (''Pinch'', 0.86, debug) \<and>
     debug = [(''thumb'', PBool False), (''index'', PBool False), (''middle'', PBool False),
              (''ring'', PBool False), (''pinky'', PBool False),
              (''pinch_distance'', PFloat (Fin 0))] \<and>
     map_of debug ''reason'' = None \<and> map_of debug ''error'' = None"
  by (simp add: classify_sign_def classify_resolved_def sign_rules_def count_fingers_def
      fingers_dict_def hand_closed_def hand_eval)

text \<open>
  What the wrist check does when it is reached: on a list of at least 21 dicts (each
  name falsy or hashable) with no entry named \<^verbatim>\<open>wrist\<close> and the empty dict at index
  0, the result is \<^verbatim>\<open>NO_WRIST\<close>; the length check comes first.
\<close>

lemma empty_wrist_exit:
  "(length lms < 21 \<longrightarrow> classify_sign ar (PList lms) = Inr not_enough_landmarks) \<and>
   (21 \<le> length lms \<and> list_all named_record lms \<and>
    (\<forall>lm \<in> set lms. py_get lm ''name'' PNone \<noteq> Inr (PStr ''wrist'')) \<and>
    lms ! 0 = PDict [] \<longrightarrow>
      classify_sign ar (PList lms) = Inr no_wrist)"
proof (intro conjI impI)
  assume "length lms < 21"
  then show "classify_sign ar (PList lms) = Inr not_enough_landmarks"
    by (simp add: classify_sign_def)
next
  assume h: "21 \<le> length lms \<and> list_all named_record lms \<and>
    (\<forall>lm \<in> set lms. py_get lm ''name'' PNone \<noteq> Inr (PStr ''wrist'')) \<and>
    lms ! 0 = PDict []"
  then obtain bn where loop: "by_name_loop lms Map.empty = Inr bn"
    using by_name_loop_total by blast
  from by_name_loop_unnamed [OF loop, of "PStr ''wrist''"] h
  have "bn (PStr ''wrist'') = None" by simp
  with h have "\<not> truthy (g bn lms ''wrist'' 0)"
    by (simp add: g_def)
  with h loop show "classify_sign ar (PList lms) = Inr no_wrist"
    by (simp add: classify_sign_no_wrist)
qed

text \<open>
  C6, the code at the failing input. The claim says that a 21-element sequence with
  no entry named \<^verbatim>\<open>wrist\<close> and an absent or empty element at index 0 gives
  \<^verbatim>\<open>NO_WRIST\<close>. With \<^verbatim>\<open>None\<close> at index 0 and no name anywhere, the naming loop
  raises \<^verbatim>\<open>AttributeError\<close> at \<^verbatim>\<open>lm.get("name")\<close>, before the check
  \<^verbatim>\<open>if not wrist\<close> is reached; with the empty dict at index 0 the same list does
  give \<^verbatim>\<open>NO_WRIST\<close>.
\<close>

theorem null_wrist_raises:
  "length hand_null_wrist = 21 \<and> hand_null_wrist ! 0 = PNone \<and>
   classify_sign (ieee754 Map.empty) (PList hand_null_wrist) = Inl AttributeError \<and>
   classify_sign (ieee754 Map.empty) (PList hand_empty_wrist) = Inr no_wrist"
  by (simp add: classify_sign_def classify_resolved_def hand_null_wrist_def
      hand_empty_wrist_def hand_eval)

text \<open>
  C7. Whenever the two distances to the wrist are computed, a finger is extended
  exactly when its tip and its pip both resolve (are truthy) and
  \<^verbatim>\<open>dist(tip, wrist) > dist(pip, wrist) + 0.04\<close> in float arithmetic; the
  comparison is strict, so a tip whose distance is equal to the float sum
  \<^verbatim>\<open>dist(pip, wrist) + 0.04\<close> is not extended. This holds for every float
  arithmetic.
\<close>

theorem extended_strict:
  assumes "dist_lm ar tip wrist = Inr dt" and "dist_lm ar pip wrist = Inr dp"
  shows "extended ar wrist tip pip =
           Inr (truthy tip \<and> truthy pip \<and> double_gt dt (fadd ar dp lit_0_04)) \<and>
         (dt = fadd ar dp lit_0_04 \<longrightarrow> extended ar wrist tip pip = Inr False)"
  using assms by (auto simp: extended_def double_gt_irrefl)

text \<open>
  C7, witness: with the wrist at 0, the pip at 0.04 and the tip at 0.08, the sum
  \<^verbatim>\<open>0.04 + 0.04\<close> is the double 0.08 and the finger is not extended; with the tip
  at the next double after 0.08 it is.
\<close>

theorem extended_strict_witness:
  "dist_lm (ieee754 Map.empty) boundary_pip boundary_wrist = Inr lit_0_04 \<and>
   fadd (ieee754 Map.empty) lit_0_04 lit_0_04 = Fin (5764607523034235 / 2 ^ 56) \<and>
   dist_lm (ieee754 Map.empty) boundary_tip boundary_wrist
     = Inr (Fin (5764607523034235 / 2 ^ 56)) \<and>
   extended (ieee754 Map.empty) boundary_wrist boundary_tip boundary_pip = Inr False \<and>
   extended (ieee754 Map.empty) boundary_wrist above_boundary_tip boundary_pip = Inr True"
proof -
  have p: "dist_lm (ieee754 Map.empty) boundary_pip boundary_wrist = Inr lit_0_04"
    by (simp add: boundary_pip_def boundary_wrist_def hand_eval)
  have s: "fadd (ieee754 Map.empty) lit_0_04 lit_0_04 = Fin (5764607523034235 / 2 ^ 56)"
    by (simp add: hand_eval)
  have t: "dist_lm (ieee754 Map.empty) boundary_tip boundary_wrist
      = Inr (Fin (5764607523034235 / 2 ^ 56))"
    by (simp add: boundary_tip_def boundary_wrist_def hand_eval)
  have u: "dist_lm (ieee754 Map.empty) above_boundary_tip boundary_wrist
      = Inr (Fin (5764607523034236 / 2 ^ 56))"
    by (simp add: above_boundary_tip_def boundary_wrist_def hand_eval)
  from extended_strict [OF t p] s
  have "extended (ieee754 Map.empty) boundary_wrist boundary_tip boundary_pip = Inr False"
    by (simp add: double_gt_def)
  moreover from extended_strict [OF u p] s
  have "extended (ieee754 Map.empty) boundary_wrist above_boundary_tip boundary_pip = Inr True"
    by (simp add: double_gt_def above_boundary_tip_def boundary_pip_def landmark_def)
  ultimately show ?thesis using p s t by simp
qed

text \<open>
  C8, counterexample. The claim says that \<^verbatim>\<open>dist(a, b)\<close> equals \<^verbatim>\<open>dist(b, a)\<close> for
  every pair of landmarks. For a landmark with a NaN coordinate both calls return
  NaN, and NaN is not equal to NaN.
\<close>

theorem dist_nan_counterexample:
  "dist_lm (ieee754 Map.empty) nan_landmark centre = Inr NaN \<and>
   dist_lm (ieee754 Map.empty) centre nan_landmark = Inr NaN \<and>
   \<not> double_eq NaN NaN"
  by (simp add: nan_landmark_def double_eq_def hand_eval)

text \<open>
  C8, as amended. For every two arguments each of which is absent (falsy) or a
  landmark whose \<^verbatim>\<open>x\<close> and \<^verbatim>\<open>y\<close> are coerced to finite floats, \<^verbatim>\<open>dist(a, b)\<close>
  and \<^verbatim>\<open>dist(b, a)\<close> both return, and return equal floats, on every float
  arithmetic whose subtraction and \<^verbatim>\<open>hypot\<close> are symmetric in sign as those of
  IEEE 754 are.
\<close>

theorem dist_symmetric:
  assumes "sign_symmetric ar"
    and "\<not> truthy a \<or> finite_record ar a" and "\<not> truthy b \<or> finite_record ar b"
  shows "\<exists>d. dist_lm ar a b = Inr d \<and> dist_lm ar b a = Inr d \<and> double_eq d d"
proof (cases "\<not> truthy a \<or> \<not> truthy b")
  case True
  then show ?thesis by (auto simp: dist_lm_def double_eq_def)
next
  case False
  with assms have fa: "finite_coord ar a ''x''" "finite_coord ar a ''y''"
    and fb: "finite_coord ar b ''x''" "finite_coord ar b ''y''"
    by (auto simp: finite_record_def)
  from fa obtain vax ax vay ay where a:
    "py_get a ''x'' (PFloat (Fin 0)) = Inr vax" "py_float ar vax = Inr (Fin ax)"
    "py_get a ''y'' (PFloat (Fin 0)) = Inr vay" "py_float ar vay = Inr (Fin ay)"
    unfolding finite_coord_def by (auto split: sum.splits double.splits)
  from fb obtain vbx bx vby by' where b:
    "py_get b ''x'' (PFloat (Fin 0)) = Inr vbx" "py_float ar vbx = Inr (Fin bx)"
    "py_get b ''y'' (PFloat (Fin 0)) = Inr vby" "py_float ar vby = Inr (Fin by')"
    unfolding finite_coord_def by (auto split: sum.splits double.splits)
  let ?dx = "fsub ar (Fin ax) (Fin bx)" and ?dy = "fsub ar (Fin ay) (Fin by')"
  have ab: "dist_lm ar a b = Inr (fhypot ar ?dx ?dy)"
    using False a b by (simp add: dist_lm_def)
  have "dist_lm ar b a = Inr (fhypot ar (fsub ar (Fin bx) (Fin ax)) (fsub ar (Fin by') (Fin ay)))"
    using False a b by (simp add: dist_lm_def)
  moreover have "fsub ar (Fin bx) (Fin ax) = neg ?dx" "fsub ar (Fin by') (Fin ay) = neg ?dy"
    using assms(1) unfolding sign_symmetric_def by blast+
  moreover have "fhypot ar (neg ?dx) (neg ?dy) = fhypot ar ?dx ?dy"
    using assms(1) unfolding sign_symmetric_def by blast
  ultimately have ba: "dist_lm ar b a = Inr (fhypot ar ?dx ?dy)" by simp
  have "?dx \<noteq> NaN" "?dy \<noteq> NaN"
    using assms(1) unfolding sign_symmetric_def by blast+
  then have "fhypot ar ?dx ?dy \<noteq> NaN"
    using assms(1) unfolding sign_symmetric_def by blast
  with ab ba show ?thesis by (simp add: double_eq_def)
qed

text \<open>C8, witness: two landmarks 1/4 apart, and a landmark with \<^verbatim>\<open>None\<close>.\<close>

theorem dist_symmetric_witness:
  "dist_lm (ieee754 Map.empty) away centre = Inr (Fin (1 / 4)) \<and>
   dist_lm (ieee754 Map.empty) centre away = Inr (Fin (1 / 4)) \<and>
   dist_lm (ieee754 Map.empty) PNone centre = Inr (Fin 0) \<and>
   dist_lm (ieee754 Map.empty) centre PNone = Inr (Fin 0)"
proof -
  have r: "finite_record (ieee754 Map.empty) away" "finite_record (ieee754 Map.empty) centre"
    by (simp_all add: finite_record_def finite_coord_def away_def centre_def landmark_def)
  have v: "dist_lm (ieee754 Map.empty) away centre = Inr (Fin (1 / 4))"
    by (simp add: hand_eval)
  from dist_symmetric [OF ieee754_sign_symmetric, of away Map.empty centre] r v
  have "dist_lm (ieee754 Map.empty) centre away = Inr (Fin (1 / 4))" by auto
  moreover from dist_symmetric [OF ieee754_sign_symmetric, of PNone Map.empty centre] r
  have "dist_lm (ieee754 Map.empty) PNone centre = Inr (Fin 0) \<and>
      dist_lm (ieee754 Map.empty) centre PNone = Inr (Fin 0)"
    by (auto simp: dist_lm_def)
  ultimately show ?thesis using v by simp
qed

text \<open>
  C9. When the naming loop has run over the list, the landmark at any position \<open>i\<close>
  that carries a role name, and after which no landmark carries the same name, is
  the one \<^verbatim>\<open>g\<close> resolves for that role, whatever the fallback index \<open>idx\<close> is: the
  name overrides the position, and of several landmarks of one name the last wins.
\<close>

theorem name_resolution_last_wins:
  assumes "by_name_loop lms Map.empty = Inr bn"
    and "i < length lms"
    and "py_get (lms ! i) ''name'' PNone = Inr (PStr role)" and "role \<noteq> []"
    and "\<forall>lm \<in> set (drop (Suc i) lms). py_get lm ''name'' PNone \<noteq> Inr (PStr role)"
  shows "g bn lms role idx = lms ! i"
proof -
  have "\<forall>j. i < j \<and> j < length lms \<longrightarrow> py_get (lms ! j) ''name'' PNone \<noteq> Inr (PStr role)"
  proof (intro allI impI)
    fix j assume j: "i < j \<and> j < length lms"
    then have "lms ! j = drop (Suc i) lms ! (j - Suc i)" "j - Suc i < length (drop (Suc i) lms)"
      by auto
    then have "lms ! j \<in> set (drop (Suc i) lms)" by (metis nth_mem)
    with assms(5) show "py_get (lms ! j) ''name'' PNone \<noteq> Inr (PStr role)" by blast
  qed
  from by_name_loop_last [OF assms(1,2,3) _ this] assms(4)
  have "bn (PStr role) = Some (lms ! i)" by simp
  then show ?thesis by (simp add: g_def)
qed

text \<open>
  C9, witness: two landmarks named \<^verbatim>\<open>wrist\<close>, at indices 5 and 7; the wrist role is
  the one at index 7, not the one at index 5 and not the element at index 0.
\<close>

theorem name_resolution_last_wins_witness:
  "by_name_loop hand_named Map.empty = Inr [PStr ''wrist'' \<mapsto> named ''wrist'' 0.25 0.25] \<and>
   g [PStr ''wrist'' \<mapsto> named ''wrist'' 0.25 0.25] hand_named ''wrist'' 0 =
     named ''wrist'' 0.25 0.25 \<and>
   hand_named ! 5 = named ''wrist'' 0.125 0.125 \<and> hand_named ! 0 = centre"
proof -
  have loop: "by_name_loop hand_named Map.empty =
      Inr [PStr ''wrist'' \<mapsto> named ''wrist'' 0.25 0.25]"
    by (simp add: hand_named_def named_def centre_def landmark_def)
  from name_resolution_last_wins [OF loop, of 7 "''wrist''" 0]
  have "g [PStr ''wrist'' \<mapsto> named ''wrist'' 0.25 0.25] hand_named ''wrist'' 0 =
      named ''wrist'' 0.25 0.25"
    by (simp add: hand_named_def named_def centre_def landmark_def)
  with loop show ?thesis by (simp add: hand_named_def)
qed

text \<open>
  What \<^verbatim>\<open>dist\<close> and \<^verbatim>\<open>extended\<close> do with a falsy argument, whatever it is: they
  treat it as they treat \<^verbatim>\<open>None\<close>.
\<close>

lemma falsy_dist_extended:
  assumes "\<not> truthy v"
  shows "dist_lm ar v b = Inr (Fin 0) \<and> dist_lm ar a v = Inr (Fin 0) \<and>
         dist_lm ar v b = dist_lm ar PNone b \<and> dist_lm ar a v = dist_lm ar a PNone \<and>
         extended ar w v pip = Inr False \<and> extended ar w tip v = Inr False \<and>
         extended ar w v pip = extended ar w PNone pip \<and>
         extended ar w tip v = extended ar w tip PNone"
  using assms by (auto simp: dist_lm_def extended_def)

text \<open>
  C10, the code at the failing input. The claim says that a landmark entry that is
  present but falsy is treated as an absent one by every operation, and that a falsy
  wrist triggers the \<^verbatim>\<open>NO_WRIST\<close> exit. \<^verbatim>\<open>dist\<close> and \<^verbatim>\<open>extended\<close> do return 0.0 and
  \<^verbatim>\<open>False\<close> for a falsy entry such as 0; but with that entry as the wrist, at index 0, the
  naming loop raises \<^verbatim>\<open>AttributeError\<close> at \<^verbatim>\<open>lm.get("name")\<close> before the check
  \<^verbatim>\<open>if not wrist\<close> is reached. Only the empty dict gets as far as \<^verbatim>\<open>NO_WRIST\<close>.
\<close>

theorem falsy_wrist_raises:
  "length hand_zero_wrist = 21 \<and> hand_zero_wrist ! 0 = PInt 0 \<and> truthy (PInt 0) = False \<and>
   classify_sign (ieee754 Map.empty) (PList hand_zero_wrist) = Inl AttributeError"
  by (simp add: classify_sign_def hand_zero_wrist_def)

end
